theory Spec2Isabelle
  imports Complex_Main
begin

section \<open>Hand-gesture camera control: the detector and the camera mapper\<close>

text \<open>
  The development embeds the gesture pipeline of \<^verbatim>\<open>frontend/src/HandTracker.jsx\<close>
  and the render-tick camera mapping of \<^verbatim>\<open>frontend/src/ScatterPlot3D.jsx\<close>.

  JavaScript numbers are read as mathematical reals: rounding, NaN and the infinities of
  IEEE-754 doubles are outside the model. A React ref is a field of a state record that
  every function takes and returns; \<^verbatim>\<open>null\<close> is \<open>None\<close>. Reading a property of
  \<^verbatim>\<open>undefined\<close> (an index past the end of an array) throws a TypeError, which is the
  \<open>Inl\<close> branch of a result.
\<close>

subsection \<open>Data\<close>

text \<open>A landmark, a palm centre, a delta and a camera position are all objects \<^verbatim>\<open>{x, y, z}\<close>.\<close>

record point =
  x :: real
  y :: real
  z :: real

type_synonym hand = "point list"

datatype js_error = TypeError

text \<open>
  The gesture object: \<^verbatim>\<open>{type: 'fist', position, delta?}\<close>,
  \<^verbatim>\<open>{type: 'twohand-spread', strength}\<close> or \<^verbatim>\<open>{type: 'twohand-pinch', strength}\<close>.
  The value handed to \<^verbatim>\<open>onGesture\<close> is a \<open>gesture option\<close>, \<open>None\<close> being \<^verbatim>\<open>null\<close>.
\<close>

datatype gesture =
  Fist point "point option"
| TwohandSpread real
| TwohandPinch real

text \<open>The four refs of HandTracker (lines 30 to 33), all initially \<^verbatim>\<open>null\<close>.\<close>

record tracker_refs =
  lastPositionRef :: "point option"
  lastPinchDistRef :: "real option"
  lastTwoHandsDistRef :: "real option"
  lastTwoHandsCenterRef :: "point option"

definition initial_refs :: tracker_refs where
  "initial_refs =
     \<lparr>lastPositionRef = None, lastPinchDistRef = None,
      lastTwoHandsDistRef = None, lastTwoHandsCenterRef = None\<rparr>"

subsection \<open>Results that may throw\<close>

definition and_then :: "js_error + 'a \<Rightarrow> ('a \<Rightarrow> js_error + 'b) \<Rightarrow> js_error + 'b" where
  "and_then m f = (case m of Inl e \<Rightarrow> Inl e | Inr v \<Rightarrow> f v)"

text \<open>\<^verbatim>\<open>xs[i]\<close> whose properties are then read: an index past the end gives
  \<^verbatim>\<open>undefined\<close>, and the property read throws.\<close>

definition at_index :: "'a list \<Rightarrow> nat \<Rightarrow> js_error + 'a" where
  "at_index xs i = (if i < length xs then Inr (xs ! i) else Inl TypeError)"

subsection \<open>Pose classifier (HandTracker.jsx, lines 37 to 80)\<close>

text \<open>\<^verbatim>\<open>Math.sqrt(Math.pow(p1.x - p2.x, 2) + Math.pow(p1.y - p2.y, 2))\<close>: the depth
  coordinate takes no part.\<close>

definition distance :: "point \<Rightarrow> point \<Rightarrow> real" where
  "distance p1 p2 = sqrt ((x p1 - x p2)\<^sup>2 + (y p1 - y p2)\<^sup>2)"

definition getPalmCenter :: "hand \<Rightarrow> js_error + point" where
  "getPalmCenter hand =
     and_then (at_index hand 0) (\<lambda>wrist.
     and_then (at_index hand 5) (\<lambda>indexMcp.
     and_then (at_index hand 9) (\<lambda>h9.
     and_then (at_index hand 13) (\<lambda>h13.
     and_then (at_index hand 17) (\<lambda>h17.
       Inr \<lparr>x = (x wrist + x indexMcp + x h9 + x h13 + x h17) / 5,
            y = (y wrist + y indexMcp + y h9 + y h13 + y h17) / 5,
            z = (z wrist + z indexMcp + z h9 + z h13 + z h17) / 5\<rparr>)))))"

definition isHandPinched :: "hand \<Rightarrow> js_error + bool" where
  "isHandPinched hand =
     and_then (at_index hand 4) (\<lambda>thumbTip.
     and_then (at_index hand 8) (\<lambda>indexTip.
       Inr (distance thumbTip indexTip < 0.1)))"

text \<open>The four comparisons of \<^verbatim>\<open>isHandFist\<close> are joined by \<^verbatim>\<open>&&\<close>: a later pair of
  landmarks is read only when every earlier comparison held.\<close>

definition tipBelowJoint :: "hand \<Rightarrow> nat \<Rightarrow> nat \<Rightarrow> js_error + bool" where
  "tipBelowJoint hand tip mcp =
     and_then (at_index hand tip) (\<lambda>fingerTip.
     and_then (at_index hand mcp) (\<lambda>fingerMcp.
       Inr (y fingerTip > y fingerMcp)))"

definition isHandFist :: "hand \<Rightarrow> js_error + bool" where
  "isHandFist hand =
     and_then (tipBelowJoint hand 8 5) (\<lambda>indexCurled.
       if \<not> indexCurled then Inr False
       else and_then (tipBelowJoint hand 12 9) (\<lambda>middleCurled.
         if \<not> middleCurled then Inr False
         else and_then (tipBelowJoint hand 16 13) (\<lambda>ringCurled.
           if \<not> ringCurled then Inr False
           else tipBelowJoint hand 20 17)))"

subsection \<open>Gesture detector (HandTracker.jsx, lines 82 to 168)\<close>

text \<open>The gesture chosen on lines 103 to 118 from the pinch flag, the distance between the
  palms and the stored baseline.\<close>

definition zoomGesture :: "bool \<Rightarrow> real \<Rightarrow> real option \<Rightarrow> gesture option" where
  "zoomGesture bothPinched handsDistance lastDist =
     (if bothPinched then
        (case lastDist of
           None \<Rightarrow> None
         | Some baseline \<Rightarrow>
             (let distDelta = handsDistance - baseline in
              if \<bar>distDelta\<bar> > 0.008 then
                (if distDelta > 0
                 then Some (TwohandSpread (min 1 (distDelta * 12)))
                 else Some (TwohandPinch (min 1 (\<bar>distDelta\<bar> * 12))))
              else None))
      else None)"

text \<open>Everything \<^verbatim>\<open>detectTwoHandGesture\<close> reads from the frame before it touches a ref:
  both palm centres, then \<^verbatim>\<open>isHandPinched(hand1) && isHandPinched(hand2)\<close> (the second
  only when the first holds), then the distance between the palms.\<close>

definition twoHandReadings :: "hand list \<Rightarrow> js_error + (bool \<times> real)" where
  "twoHandReadings landmarks =
     and_then (at_index landmarks 0) (\<lambda>hand1.
     and_then (at_index landmarks 1) (\<lambda>hand2.
     and_then (getPalmCenter hand1) (\<lambda>palm1.
     and_then (getPalmCenter hand2) (\<lambda>palm2.
     and_then (and_then (isHandPinched hand1)
                 (\<lambda>p1. if p1 then isHandPinched hand2 else Inr False)) (\<lambda>bothPinched.
       Inr (bothPinched, distance palm1 palm2))))))"

definition detectTwoHandGesture ::
  "hand list \<Rightarrow> tracker_refs \<Rightarrow> (js_error + gesture option) \<times> tracker_refs" where
  "detectTwoHandGesture landmarks r =
     (case twoHandReadings landmarks of
        Inl e \<Rightarrow> (Inl e, r)
      | Inr (bothPinched, handsDistance) \<Rightarrow>
          (Inr (zoomGesture bothPinched handsDistance (lastTwoHandsDistRef r)),
           r\<lparr>lastTwoHandsDistRef := Some handsDistance\<rparr>))"

definition detectSingleHandGesture ::
  "hand \<Rightarrow> tracker_refs \<Rightarrow> (js_error + gesture option) \<times> tracker_refs" where
  "detectSingleHandGesture hand r =
     (case and_then (getPalmCenter hand) (\<lambda>palmCenter.
           and_then (isHandFist hand) (\<lambda>fistDetected. Inr (palmCenter, fistDetected))) of
        Inl e \<Rightarrow> (Inl e, r)
      | Inr (palmCenter, fistDetected) \<Rightarrow>
          if fistDetected then
            (Inr (Some (Fist palmCenter
                    (case lastPositionRef r of
                       None \<Rightarrow> None
                     | Some lastPos \<Rightarrow>
                         Some \<lparr>x = x palmCenter - x lastPos,
                               y = y palmCenter - y lastPos,
                               z = z palmCenter - z lastPos\<rparr>))),
             r\<lparr>lastPositionRef := Some palmCenter\<rparr>)
          else (Inr None, r\<lparr>lastPositionRef := None\<rparr>))"

text \<open>\<^verbatim>\<open>detectGesture\<close>: the argument may be \<^verbatim>\<open>null\<close>; with two or more hands the
  single-hand refs are reset before the two-hand detector runs, with one hand the two-hand
  refs are reset before the single-hand detector runs.\<close>

definition detectGesture ::
  "hand list option \<Rightarrow> tracker_refs \<Rightarrow> (js_error + gesture option) \<times> tracker_refs" where
  "detectGesture landmarks r =
     (case landmarks of
        None \<Rightarrow> (Inr None, r)
      | Some ls \<Rightarrow>
          if length ls = 0 then (Inr None, r)
          else if length ls \<ge> 2 then
            detectTwoHandGesture ls (r\<lparr>lastPositionRef := None, lastPinchDistRef := None\<rparr>)
          else
            detectSingleHandGesture (ls ! 0)
              (r\<lparr>lastTwoHandsDistRef := None, lastTwoHandsCenterRef := None\<rparr>))"

subsection \<open>The tracking session (HandTracker.jsx, lines 170 to 225 and 303;
  ScatterPlot3D.jsx, lines 287 to 346)\<close>

text \<open>
  The refs live as long as HandTracker is mounted, which is as long as the plot is
  fullscreen (ScatterPlot3D.jsx, lines 410 to 415). \<open>handTrackingEnabled\<close> is the
  parent's state cell passed down as the \<^verbatim>\<open>enabled\<close> prop, and \<open>currentGesture\<close> the
  parent's state cell that \<^verbatim>\<open>onGesture\<close> writes. While the flag is false the component
  renders nothing (line 303), so \<^verbatim>\<open>canvasRef.current\<close> is \<^verbatim>\<open>null\<close> and
  \<^verbatim>\<open>onResults\<close> returns on line 175.
\<close>

record tracker =
  handTrackingEnabled :: bool
  refs :: tracker_refs
  currentGesture :: "gesture option"

definition onResults :: "hand list option \<Rightarrow> tracker \<Rightarrow> (js_error + unit) \<times> tracker" where
  "onResults multiHandLandmarks s =
     (if \<not> handTrackingEnabled s then (Inr (), s)
      else
        (case multiHandLandmarks of
           None \<Rightarrow>
             (Inr (), s\<lparr>refs := (refs s)\<lparr>lastPositionRef := None\<rparr>, currentGesture := None\<rparr>)
         | Some ls \<Rightarrow>
             if length ls > 0 then
               (case detectGesture (Some ls) (refs s) of
                  (Inl e, r') \<Rightarrow> (Inl e, s\<lparr>refs := r'\<rparr>)
                | (Inr gesture, r') \<Rightarrow> (Inr (), s\<lparr>refs := r', currentGesture := gesture\<rparr>))
             else
               (Inr (), s\<lparr>refs := (refs s)\<lparr>lastPositionRef := None\<rparr>,
                          currentGesture := None\<rparr>)))"

text \<open>
  A change of the flag. HandTracker's effect (lines 218 to 225) stops the camera and
  sets the status; the parent's effect (ScatterPlot3D.jsx, lines 342 to 346) clears the
  current gesture when the flag is false. Neither writes a ref.
\<close>

definition setHandTrackingEnabled :: "bool \<Rightarrow> tracker \<Rightarrow> tracker" where
  "setHandTrackingEnabled b s =
     s\<lparr>handTrackingEnabled := b, currentGesture := (if b then currentGesture s else None)\<rparr>"

text \<open>
  The callbacks that reach the tracker while HandTracker is mounted: a result of the
  landmark service and a change of the flag. \<open>mounted\<close> is the tracker right after
  mounting: the flag starts false (ScatterPlot3D.jsx, line 287) and every ref is
  \<^verbatim>\<open>null\<close>. An exception thrown inside \<^verbatim>\<open>onResults\<close> ends that callback only; the
  refs written before it stay written.
\<close>

datatype event = Frame "hand list option" | SetEnabled bool

fun handle :: "event \<Rightarrow> tracker \<Rightarrow> tracker" where
  "handle (Frame multiHandLandmarks) s = snd (onResults multiHandLandmarks s)"
| "handle (SetEnabled b) s = setHandTrackingEnabled b s"

definition run :: "event list \<Rightarrow> tracker \<Rightarrow> tracker" where
  "run events s = fold handle events s"

definition mounted :: tracker where
  "mounted = \<lparr>handTrackingEnabled = False, refs = initial_refs, currentGesture = None\<rparr>"

subsection \<open>Camera mapper (ScatterPlot3D.jsx, lines 8 to 54)\<close>

text \<open>
  The three.js vector methods the render tick calls on \<^verbatim>\<open>camera.position\<close>:
  \<^verbatim>\<open>length()\<close>, \<^verbatim>\<open>normalize()\<close> (which divides by \<^verbatim>\<open>length() || 1\<close>) and
  \<^verbatim>\<open>multiplyScalar(s)\<close>.
\<close>

definition vec_length :: "point \<Rightarrow> real" where
  "vec_length v = sqrt ((x v)\<^sup>2 + (y v)\<^sup>2 + (z v)\<^sup>2)"

definition multiplyScalar :: "point \<Rightarrow> real \<Rightarrow> point" where
  "multiplyScalar v s = \<lparr>x = x v * s, y = y v * s, z = z v * s\<rparr>"

definition normalize :: "point \<Rightarrow> point" where
  "normalize v =
     multiplyScalar v (1 / (if vec_length v = 0 then 1 else vec_length v))"

text \<open>
  Modelled from the spec: the orbit controller is the external collaborator of section 6,
  known here by its contract only. \<^verbatim>\<open>getAzimuthalAngle\<close> reads the azimuth that
  \<^verbatim>\<open>setAzimuthalAngle\<close> writes; its \<^verbatim>\<open>update()\<close> (the damping pass, which may move the
  camera) is a parameter of \<open>useFrame\<close>.
\<close>

record orbit_controls =
  azimuthalAngle :: real

definition getAzimuthalAngle :: "orbit_controls \<Rightarrow> real" where
  "getAzimuthalAngle controls = azimuthalAngle controls"

definition setAzimuthalAngle :: "orbit_controls \<Rightarrow> real \<Rightarrow> orbit_controls" where
  "setAzimuthalAngle controls v = controls\<lparr>azimuthalAngle := v\<rparr>"

text \<open>The camera position and \<^verbatim>\<open>controlsRef.current\<close>, which is \<^verbatim>\<open>null\<close> until the
  controller is mounted.\<close>

record scene =
  position :: point
  controlsRef :: "orbit_controls option"

type_synonym damping_pass = "point \<Rightarrow> orbit_controls \<Rightarrow> point \<times> orbit_controls"

definition runUpdate :: "damping_pass \<Rightarrow> point \<Rightarrow> orbit_controls \<Rightarrow> scene" where
  "runUpdate update pos controls =
     (case update pos controls of (pos', controls') \<Rightarrow>
        \<lparr>position = pos', controlsRef = Some controls'\<rparr>)"

text \<open>What lines 21 to 36 do to the camera position and the controller for a gesture
  that is not \<^verbatim>\<open>null\<close>.\<close>

definition applyGesture :: "gesture \<Rightarrow> point \<Rightarrow> orbit_controls \<Rightarrow> point \<times> orbit_controls" where
  "applyGesture gesture pos controls =
     (case gesture of
        Fist palm (Some delta) \<Rightarrow>
          (let rotateSensitivity = 15;
               azimuthAngle = getAzimuthalAngle controls
           in (pos, setAzimuthalAngle controls (azimuthAngle - x delta * rotateSensitivity)))
      | Fist palm None \<Rightarrow> (pos, controls)
      | TwohandPinch strength \<Rightarrow>
          (let currentDistance = vec_length pos;
               newDistance = max 3 (min 20 (currentDistance + strength * 0.5))
           in (multiplyScalar (normalize pos) newDistance, controls))
      | TwohandSpread strength \<Rightarrow>
          (let currentDistance = vec_length pos;
               newDistance = max 3 (min 20 (currentDistance - strength * 0.5))
           in (multiplyScalar (normalize pos) newDistance, controls)))"

text \<open>One render tick, \<^verbatim>\<open>useFrame\<close>'s callback in \<^verbatim>\<open>GestureController\<close>.\<close>

definition useFrame :: "damping_pass \<Rightarrow> bool \<Rightarrow> gesture option \<Rightarrow> scene \<Rightarrow> scene" where
  "useFrame update enabled gesture sc =
     (case controlsRef sc of
        None \<Rightarrow> sc
      | Some controls \<Rightarrow>
          if \<not> enabled then runUpdate update (position sc) controls
          else
            (case gesture of
               None \<Rightarrow> runUpdate update (position sc) controls
             | Some g \<Rightarrow>
                 (case applyGesture g (position sc) controls of
                    (pos', controls') \<Rightarrow> runUpdate update pos' controls')))"

text \<open>A run of render ticks, one gesture value per tick.\<close>

fun renderTicks :: "damping_pass \<Rightarrow> bool \<Rightarrow> gesture option list \<Rightarrow> scene \<Rightarrow> scene" where
  "renderTicks update enabled [] sc = sc"
| "renderTicks update enabled (g # gs) sc =
     renderTicks update enabled gs (useFrame update enabled g sc)"

subsection \<open>Definitions used to state the properties\<close>

text \<open>The Euclidean distance between two landmarks as section 4.1 words it, over all
  three coordinates; \<open>distance\<close> above is what the code computes.\<close>

definition euclideanDistance :: "point \<Rightarrow> point \<Rightarrow> real" where
  "euclideanDistance p1 p2 =
     sqrt ((x p1 - x p2)\<^sup>2 + (y p1 - y p2)\<^sup>2 + (z p1 - z p2)\<^sup>2)"

text \<open>At most one of the single-hand ref and the two-hand refs is set.\<close>

definition exclusiveModes :: "tracker_refs \<Rightarrow> bool" where
  "exclusiveModes r =
     (lastPositionRef r = None \<or>
      (lastTwoHandsDistRef r = None \<and> lastTwoHandsCenterRef r = None))"

text \<open>A hand of 21 landmarks for concrete frames: the wrist and every joint sit at
  \<open>palm\<close>, landmark 4 is \<open>thumbTip\<close>, and the four fingertips 8, 12, 16 and 20 are
  \<open>fingerTip\<close>.\<close>

definition sample_hand :: "point \<Rightarrow> point \<Rightarrow> point \<Rightarrow> hand" where
  "sample_hand palm thumbTip fingerTip =
     [palm, palm, palm, palm, thumbTip, palm, palm, palm, fingerTip, palm, palm,
      palm, fingerTip, palm, palm, palm, fingerTip, palm, palm, palm, fingerTip]"

text \<open>Three concrete hands with the palm centre at \<open>(a, b, 0)\<close>: a fist (fingertips
  below their joints), an open hand that is not pinched, and an open hand with thumb and
  index tip together. \<open>tracking r\<close> is an enabled tracker holding the refs \<open>r\<close>.\<close>

definition fist_hand :: "real \<Rightarrow> real \<Rightarrow> hand" where
  "fist_hand a b =
     sample_hand \<lparr>x = a, y = b, z = 0\<rparr> \<lparr>x = a, y = b, z = 0\<rparr> \<lparr>x = a, y = b + 0.05, z = 0\<rparr>"

definition open_hand :: "real \<Rightarrow> real \<Rightarrow> hand" where
  "open_hand a b =
     sample_hand \<lparr>x = a, y = b, z = 0\<rparr> \<lparr>x = a - 0.2, y = b - 0.2, z = 0\<rparr>
       \<lparr>x = a, y = b - 0.2, z = 0\<rparr>"

definition pinched_hand :: "real \<Rightarrow> real \<Rightarrow> hand" where
  "pinched_hand a b =
     sample_hand \<lparr>x = a, y = b, z = 0\<rparr> \<lparr>x = a, y = b - 0.2, z = 0\<rparr>
       \<lparr>x = a, y = b - 0.2, z = 0\<rparr>"

definition tracking :: "tracker_refs \<Rightarrow> tracker" where
  "tracking r = \<lparr>handTrackingEnabled = True, refs = r, currentGesture = None\<rparr>"

text \<open>The clamp interval of the orbit distance, and the gesture values that zoom.\<close>

definition inRange :: "real \<Rightarrow> bool" where
  "inRange d = (3 \<le> d \<and> d \<le> 20)"

definition isZoom :: "gesture option \<Rightarrow> bool" where
  "isZoom gesture =
     (case gesture of
        Some (TwohandPinch strength) \<Rightarrow> True
      | Some (TwohandSpread strength) \<Rightarrow> True
      | _ \<Rightarrow> False)"

text \<open>
  Modelled from the spec: the azimuth is the horizontal orbit angle of the camera around
  its fixed target (glossary). The target is the origin (ScatterPlot3D.jsx, line 49), so
  the azimuth of a camera position is the angle of \<open>(z, x)\<close> in the horizontal plane,
  \<^verbatim>\<open>atan2(x, z)\<close>.
\<close>

definition azimuthOf :: "point \<Rightarrow> real" where
  "azimuthOf pos = Arg (Complex (z pos) (x pos))"

text \<open>For concrete ticks: a damping pass that leaves camera and controller alone, and the
  camera at its initial position (ScatterPlot3D.jsx, line 429) with the controller
  mounted and reading the azimuth of that position.\<close>

definition noDamping :: damping_pass where
  "noDamping pos controls = (pos, controls)"

definition initialCamera :: scene where
  "initialCamera =
     \<lparr>position = \<lparr>x = 8, y = 6, z = 8\<rparr>, controlsRef = Some \<lparr>azimuthalAngle = pi / 4\<rparr>\<rparr>"

section \<open>Properties\<close>

subsection \<open>Helper lemmas\<close>

lemma and_then_Inr [simp]: "and_then (Inr v) f = f v"
  by (simp add: and_then_def)

lemma and_then_Inl [simp]: "and_then (Inl e) f = Inl e"
  by (simp add: and_then_def)

lemma length_sample_hand: "length (sample_hand c t f) = 21"
  by (simp add: sample_hand_def)

lemma sample_hand_tips: "sample_hand c t f ! 4 = t" "sample_hand c t f ! 8 = f"
  by (simp_all add: sample_hand_def)

lemma getPalmCenter_sample: "getPalmCenter (sample_hand c t f) = Inr c"
  by (simp add: getPalmCenter_def at_index_def sample_hand_def)

lemma isHandFist_sample: "isHandFist (sample_hand c t f) = Inr (y f > y c)"
  by (simp add: isHandFist_def tipBelowJoint_def at_index_def sample_hand_def)

lemma isHandPinched_sample: "isHandPinched (sample_hand c t f) = Inr (distance t f < 0.1)"
  by (simp add: isHandPinched_def at_index_def sample_hand_def)

lemma distance_same_y: "y p1 = y p2 \<Longrightarrow> distance p1 p2 = \<bar>x p1 - x p2\<bar>"
  by (simp add: distance_def)

lemma fist_hand_readings:
  "getPalmCenter (fist_hand a b) = Inr \<lparr>x = a, y = b, z = 0\<rparr>"
  "isHandFist (fist_hand a b) = Inr True"
  by (simp_all add: fist_hand_def getPalmCenter_sample isHandFist_sample)

lemma open_hand_readings:
  "getPalmCenter (open_hand a b) = Inr \<lparr>x = a, y = b, z = 0\<rparr>"
  "isHandFist (open_hand a b) = Inr False"
  "isHandPinched (open_hand a b) = Inr False"
  by (simp_all add: open_hand_def getPalmCenter_sample isHandFist_sample isHandPinched_sample
      distance_same_y)

lemma pinched_hand_readings:
  "getPalmCenter (pinched_hand a b) = Inr \<lparr>x = a, y = b, z = 0\<rparr>"
  "isHandFist (pinched_hand a b) = Inr False"
  "isHandPinched (pinched_hand a b) = Inr True"
  by (simp_all add: pinched_hand_def getPalmCenter_sample isHandFist_sample isHandPinched_sample
      distance_same_y)

text \<open>On a hand of 21 landmarks none of the three classifiers throws, and the fist test
  is the conjunction of its four comparisons.\<close>

lemma isHandFist_well_formed:
  assumes "length hand = 21"
  shows "isHandFist hand =
           Inr (y (hand ! 8) > y (hand ! 5) \<and> y (hand ! 12) > y (hand ! 9) \<and>
                y (hand ! 16) > y (hand ! 13) \<and> y (hand ! 20) > y (hand ! 17))"
  using assms by (auto simp: isHandFist_def tipBelowJoint_def at_index_def)

lemma well_formed_hand_readings:
  assumes "length hand = 21"
  shows "\<exists>palm pinched fist.
           getPalmCenter hand = Inr palm \<and> isHandPinched hand = Inr pinched \<and>
           isHandFist hand = Inr fist"
  using assms
  by (simp add: getPalmCenter_def isHandPinched_def isHandFist_well_formed at_index_def)

subsection \<open>Pose classifier\<close>

text \<open>
  C7, as the spec states it: \<^verbatim>\<open>isPinched\<close> holds exactly when the Euclidean distance
  between the thumb tip and the index tip, landmarks with three coordinates, is below 0.1.
  The code disagrees on a hand whose two tips share \<open>x\<close> and \<open>y\<close> and lie one unit
  apart in depth: it is reported as pinched although the tips are at distance 1.
\<close>

theorem isPinched_euclidean_counterexample:
  "isHandPinched (sample_hand \<lparr>x = 0.5, y = 0.5, z = 0\<rparr> \<lparr>x = 0.4, y = 0.3, z = 0\<rparr>
      \<lparr>x = 0.4, y = 0.3, z = 1\<rparr>) = Inr True \<and>
   \<not> euclideanDistance
        (sample_hand \<lparr>x = 0.5, y = 0.5, z = 0\<rparr> \<lparr>x = 0.4, y = 0.3, z = 0\<rparr>
           \<lparr>x = 0.4, y = 0.3, z = 1\<rparr> ! 4)
        (sample_hand \<lparr>x = 0.5, y = 0.5, z = 0\<rparr> \<lparr>x = 0.4, y = 0.3, z = 0\<rparr>
           \<lparr>x = 0.4, y = 0.3, z = 1\<rparr> ! 8) < 0.1"
  by (simp add: isHandPinched_sample sample_hand_tips distance_def euclideanDistance_def)

text \<open>
  C7, amended: on every hand of 21 landmarks \<^verbatim>\<open>isHandPinched\<close> returns true exactly
  when the distance between the thumb tip (landmark 4) and the index tip (landmark 8)
  in the image plane, over \<open>x\<close> and \<open>y\<close> only, is strictly below 0.1.
\<close>

theorem isHandPinched_image_plane:
  assumes "length hand = 21"
  shows "isHandPinched hand =
           Inr (sqrt ((x (hand ! 4) - x (hand ! 8))\<^sup>2 + (y (hand ! 4) - y (hand ! 8))\<^sup>2)
                  < 0.1)"
  using assms by (simp add: isHandPinched_def at_index_def distance_def)

theorem isHandPinched_image_plane_witness:
  "length (sample_hand \<lparr>x = 0.5, y = 0.5, z = 0\<rparr> \<lparr>x = 0.4, y = 0.3, z = 0\<rparr>
      \<lparr>x = 0.45, y = 0.3, z = 0\<rparr>) = 21 \<and>
   isHandPinched (sample_hand \<lparr>x = 0.5, y = 0.5, z = 0\<rparr> \<lparr>x = 0.4, y = 0.3, z = 0\<rparr>
      \<lparr>x = 0.45, y = 0.3, z = 0\<rparr>) = Inr True \<and>
   isHandPinched (sample_hand \<lparr>x = 0.5, y = 0.5, z = 0\<rparr> \<lparr>x = 0.4, y = 0.3, z = 0\<rparr>
      \<lparr>x = 0.6, y = 0.3, z = 0\<rparr>) = Inr False"
  using
    isHandPinched_image_plane [of "sample_hand \<lparr>x = 0.5, y = 0.5, z = 0\<rparr>
      \<lparr>x = 0.4, y = 0.3, z = 0\<rparr> \<lparr>x = 0.45, y = 0.3, z = 0\<rparr>"]
    isHandPinched_image_plane [of "sample_hand \<lparr>x = 0.5, y = 0.5, z = 0\<rparr>
      \<lparr>x = 0.4, y = 0.3, z = 0\<rparr> \<lparr>x = 0.6, y = 0.3, z = 0\<rparr>"]
  by (simp add: sample_hand_def)

subsection \<open>Gesture detector\<close>

text \<open>What \<^verbatim>\<open>detectGesture\<close> returns on a frame of two or more hands and on a frame of
  one hand, when the classifiers do not throw.\<close>

lemma twoHandReadings_Inr:
  assumes "2 \<le> length ls"
    and "getPalmCenter (ls ! 0) = Inr palm1" and "getPalmCenter (ls ! 1) = Inr palm2"
    and "isHandPinched (ls ! 0) = Inr p1" and "isHandPinched (ls ! 1) = Inr p2"
  shows "twoHandReadings ls = Inr (p1 \<and> p2, distance palm1 palm2)"
proof -
  have "at_index ls 0 = Inr (ls ! 0)" and "at_index ls 1 = Inr (ls ! 1)"
    using assms(1) by (auto simp: at_index_def)
  then show ?thesis
    using assms(2-5) by (simp add: twoHandReadings_def)
qed

lemma detectGesture_two_hands:
  assumes "2 \<le> length ls"
    and "getPalmCenter (ls ! 0) = Inr palm1" and "getPalmCenter (ls ! 1) = Inr palm2"
    and "isHandPinched (ls ! 0) = Inr p1" and "isHandPinched (ls ! 1) = Inr p2"
  shows "detectGesture (Some ls) r =
           (Inr (zoomGesture (p1 \<and> p2) (distance palm1 palm2) (lastTwoHandsDistRef r)),
            r\<lparr>lastPositionRef := None, lastPinchDistRef := None,
              lastTwoHandsDistRef := Some (distance palm1 palm2)\<rparr>)"
proof -
  have "length ls \<noteq> 0" using assms(1) by auto
  then show ?thesis
    using assms(1)
    by (simp add: detectGesture_def detectTwoHandGesture_def twoHandReadings_Inr [OF assms])
qed

lemma detectGesture_one_hand:
  assumes "getPalmCenter hand = Inr palm" and "isHandFist hand = Inr fist"
  shows "detectGesture (Some [hand]) r =
           (if fist then
              (Inr (Some (Fist palm
                      (case lastPositionRef r of
                         None \<Rightarrow> None
                       | Some lastPos \<Rightarrow>
                           Some \<lparr>x = x palm - x lastPos, y = y palm - y lastPos,
                                 z = z palm - z lastPos\<rparr>))),
               r\<lparr>lastTwoHandsDistRef := None, lastTwoHandsCenterRef := None,
                 lastPositionRef := Some palm\<rparr>)
            else
              (Inr None,
               r\<lparr>lastTwoHandsDistRef := None, lastTwoHandsCenterRef := None,
                 lastPositionRef := None\<rparr>))"
  using assms by (simp add: detectGesture_def detectSingleHandGesture_def)

text \<open>
  C4: on a single-hand frame whose hand is a fist the detector emits \<open>Fist\<close> with the palm
  centre as position; the gesture carries \<open>delta = position - lastPositionRef\<close>, coordinate
  by coordinate, exactly when \<open>lastPositionRef\<close> was set, and no delta when it was
  \<open>None\<close>; afterwards the ref holds the palm centre. On an open hand it emits \<open>None\<close> and
  clears the ref. Hence a fist frame that follows a fist frame carries the palm's movement,
  and a fist frame that follows an open-hand frame carries no delta, wherever the palm is.
\<close>

theorem single_hand_fist_delta:
  assumes "getPalmCenter hand = Inr palm" and "isHandFist hand = Inr fist"
    and "getPalmCenter hand' = Inr palm'" and "isHandFist hand' = Inr True"
  shows "detectGesture (Some [hand]) r =
           (if fist then
              (Inr (Some (Fist palm
                      (case lastPositionRef r of
                         None \<Rightarrow> None
                       | Some lastPos \<Rightarrow>
                           Some \<lparr>x = x palm - x lastPos, y = y palm - y lastPos,
                                 z = z palm - z lastPos\<rparr>))),
               r\<lparr>lastTwoHandsDistRef := None, lastTwoHandsCenterRef := None,
                 lastPositionRef := Some palm\<rparr>)
            else
              (Inr None,
               r\<lparr>lastTwoHandsDistRef := None, lastTwoHandsCenterRef := None,
                 lastPositionRef := None\<rparr>)) \<and>
         fst (detectGesture (Some [hand']) (snd (detectGesture (Some [hand]) r))) =
           (if fist then
              Inr (Some (Fist palm'
                     (Some \<lparr>x = x palm' - x palm, y = y palm' - y palm, z = z palm' - z palm\<rparr>)))
            else Inr (Some (Fist palm' None)))"
  by (simp add: detectGesture_one_hand [OF assms(1,2)] detectGesture_one_hand [OF assms(3,4)])

theorem single_hand_fist_delta_witness:
  "getPalmCenter (fist_hand 0.6 0.5) = Inr \<lparr>x = 0.6, y = 0.5, z = 0\<rparr> \<and>
   isHandFist (fist_hand 0.6 0.5) = Inr True \<and>
   getPalmCenter (fist_hand 0.7 0.5) = Inr \<lparr>x = 0.7, y = 0.5, z = 0\<rparr> \<and>
   isHandFist (fist_hand 0.7 0.5) = Inr True \<and>
   fst (detectGesture (Some [fist_hand 0.6 0.5])
         (initial_refs\<lparr>lastPositionRef := Some \<lparr>x = 0.5, y = 0.5, z = 0\<rparr>\<rparr>)) =
     Inr (Some (Fist \<lparr>x = 0.6, y = 0.5, z = 0\<rparr> (Some \<lparr>x = 0.1, y = 0, z = 0\<rparr>))) \<and>
   fst (detectGesture (Some [fist_hand 0.6 0.5]) initial_refs) =
     Inr (Some (Fist \<lparr>x = 0.6, y = 0.5, z = 0\<rparr> None)) \<and>
   fst (detectGesture (Some [fist_hand 0.7 0.5])
         (snd (detectGesture (Some [fist_hand 0.6 0.5]) initial_refs))) =
     Inr (Some (Fist \<lparr>x = 0.7, y = 0.5, z = 0\<rparr> (Some \<lparr>x = 0.1, y = 0, z = 0\<rparr>)))"
proof -
  note hands = fist_hand_readings [of "0.6" "0.5"] fist_hand_readings [of "0.7" "0.5"]
  have moving: "fst (detectGesture (Some [fist_hand 0.6 0.5])
         (initial_refs\<lparr>lastPositionRef := Some \<lparr>x = 0.5, y = 0.5, z = 0\<rparr>\<rparr>)) =
     Inr (Some (Fist \<lparr>x = 0.6, y = 0.5, z = 0\<rparr> (Some \<lparr>x = 0.1, y = 0, z = 0\<rparr>)))"
    using single_hand_fist_delta [OF hands,
        of "initial_refs\<lparr>lastPositionRef := Some \<lparr>x = 0.5, y = 0.5, z = 0\<rparr>\<rparr>"]
    by simp
  have first: "fst (detectGesture (Some [fist_hand 0.6 0.5]) initial_refs) =
     Inr (Some (Fist \<lparr>x = 0.6, y = 0.5, z = 0\<rparr> None))"
    using single_hand_fist_delta [OF hands, of initial_refs]
    by (simp add: initial_refs_def)
  have second: "fst (detectGesture (Some [fist_hand 0.7 0.5])
         (snd (detectGesture (Some [fist_hand 0.6 0.5]) initial_refs))) =
     Inr (Some (Fist \<lparr>x = 0.7, y = 0.5, z = 0\<rparr> (Some \<lparr>x = 0.1, y = 0, z = 0\<rparr>)))"
    using conjunct2 [OF single_hand_fist_delta [OF hands, of initial_refs]]
    by simp
  show ?thesis
    using hands moving first second by blast
qed

text \<open>
  C3: on a frame of two hands, both pinched, with the distance baseline set and
  \<open>delta\<close> the current distance between the palms minus the baseline: the detector emits
  \<open>None\<close> when \<open>\<bar>delta\<bar> \<le> 0.008\<close>, \<open>TwohandSpread\<close> of strength \<open>min 1 (delta * 12)\<close> when
  \<open>delta > 0.008\<close>, and \<open>TwohandPinch\<close> of strength \<open>min 1 (\<bar>delta\<bar> * 12)\<close> when
  \<open>delta < - 0.008\<close>. A decrease of exactly 0.008 gives \<open>None\<close>, one of 0.009 gives
  \<open>TwohandPinch\<close> of strength 0.108.
\<close>

theorem two_hand_zoom_thresholds:
  assumes "2 \<le> length ls"
    and "getPalmCenter (ls ! 0) = Inr palm1" and "getPalmCenter (ls ! 1) = Inr palm2"
    and "isHandPinched (ls ! 0) = Inr True" and "isHandPinched (ls ! 1) = Inr True"
    and "lastTwoHandsDistRef r = Some previousDistance"
    and "delta = distance palm1 palm2 - previousDistance"
  shows "fst (detectGesture (Some ls) r) =
           Inr (if \<bar>delta\<bar> \<le> 0.008 then None
                else if delta > 0.008 then Some (TwohandSpread (min 1 (delta * 12)))
                else Some (TwohandPinch (min 1 (\<bar>delta\<bar> * 12)))) \<and>
         (delta = - 0.008 \<longrightarrow> fst (detectGesture (Some ls) r) = Inr None) \<and>
         (delta = - 0.009 \<longrightarrow>
            fst (detectGesture (Some ls) r) = Inr (Some (TwohandPinch 0.108)))"
proof -
  have "fst (detectGesture (Some ls) r) =
          Inr (zoomGesture True (distance palm1 palm2) (Some previousDistance))"
    using detectGesture_two_hands [OF assms(1-5), of r] assms(6) by simp
  then have main: "fst (detectGesture (Some ls) r) =
           Inr (if \<bar>delta\<bar> \<le> 0.008 then None
                else if delta > 0.008 then Some (TwohandSpread (min 1 (delta * 12)))
                else Some (TwohandPinch (min 1 (\<bar>delta\<bar> * 12))))"
    using assms(7) by (auto simp: zoomGesture_def Let_def)
  show ?thesis
    unfolding main by auto
qed

theorem two_hand_zoom_thresholds_witness:
  "2 \<le> length [pinched_hand 0.3 0.5, pinched_hand 0.7 0.5] \<and>
   getPalmCenter ([pinched_hand 0.3 0.5, pinched_hand 0.7 0.5] ! 0) = Inr \<lparr>x = 0.3, y = 0.5, z = 0\<rparr> \<and>
   getPalmCenter ([pinched_hand 0.3 0.5, pinched_hand 0.7 0.5] ! 1) = Inr \<lparr>x = 0.7, y = 0.5, z = 0\<rparr> \<and>
   isHandPinched ([pinched_hand 0.3 0.5, pinched_hand 0.7 0.5] ! 0) = Inr True \<and>
   isHandPinched ([pinched_hand 0.3 0.5, pinched_hand 0.7 0.5] ! 1) = Inr True \<and>
   distance \<lparr>x = 0.3, y = 0.5, z = 0\<rparr> \<lparr>x = 0.7, y = 0.5, z = 0\<rparr> - 0.409 = - 0.009 \<and>
   fst (detectGesture (Some [pinched_hand 0.3 0.5, pinched_hand 0.7 0.5])
          (initial_refs\<lparr>lastTwoHandsDistRef := Some 0.409\<rparr>)) =
     Inr (Some (TwohandPinch 0.108)) \<and>
   fst (detectGesture (Some [pinched_hand 0.3 0.5, pinched_hand 0.7 0.5])
          (initial_refs\<lparr>lastTwoHandsDistRef := Some 0.408\<rparr>)) = Inr None \<and>
   fst (detectGesture (Some [pinched_hand 0.3 0.5, pinched_hand 0.7 0.5])
          (initial_refs\<lparr>lastTwoHandsDistRef := Some 0.35\<rparr>)) =
     Inr (Some (TwohandSpread 0.6))"
proof -
  let ?ls = "[pinched_hand 0.3 0.5, pinched_hand 0.7 0.5]"
  have len: "2 \<le> length ?ls" by simp
  have palms: "getPalmCenter (?ls ! 0) = Inr \<lparr>x = 0.3, y = 0.5, z = 0\<rparr>"
      "getPalmCenter (?ls ! 1) = Inr \<lparr>x = 0.7, y = 0.5, z = 0\<rparr>"
    by (simp_all add: pinched_hand_readings)
  have pinched: "isHandPinched (?ls ! 0) = Inr True" "isHandPinched (?ls ! 1) = Inr True"
    by (simp_all add: pinched_hand_readings)
  have dist: "distance \<lparr>x = 0.3, y = 0.5, z = 0\<rparr> \<lparr>x = 0.7, y = 0.5, z = 0\<rparr> = 0.4"
    by (simp add: distance_same_y)
  have together: "fst (detectGesture (Some ?ls) (initial_refs\<lparr>lastTwoHandsDistRef := Some 0.409\<rparr>)) =
      Inr (Some (TwohandPinch 0.108))"
    using two_hand_zoom_thresholds [OF len palms pinched,
        of "initial_refs\<lparr>lastTwoHandsDistRef := Some 0.409\<rparr>" "0.409" "- 0.009"]
    by (simp add: distance_same_y)
  have still: "fst (detectGesture (Some ?ls) (initial_refs\<lparr>lastTwoHandsDistRef := Some 0.408\<rparr>)) =
      Inr None"
    using two_hand_zoom_thresholds [OF len palms pinched,
        of "initial_refs\<lparr>lastTwoHandsDistRef := Some 0.408\<rparr>" "0.408" "- 0.008"]
    by (simp add: distance_same_y)
  have apart: "fst (detectGesture (Some ?ls) (initial_refs\<lparr>lastTwoHandsDistRef := Some 0.35\<rparr>)) =
      Inr (Some (TwohandSpread 0.6))"
    using two_hand_zoom_thresholds [OF len palms pinched,
        of "initial_refs\<lparr>lastTwoHandsDistRef := Some 0.35\<rparr>" "0.35" "0.05"]
    by (simp add: distance_same_y)
  show ?thesis
    using len palms pinched together still apart by (simp add: distance_same_y)
qed

text \<open>
  C6: on every frame of two or more hands the distance baseline \<open>lastTwoHandsDistRef\<close> is
  set to the current distance between the two palms, whatever the pinch state; and when
  not both hands are pinched the detector emits \<open>None\<close>, however much the distance changed.
\<close>

theorem baseline_refreshed_gesture_gated:
  assumes "2 \<le> length ls"
    and "getPalmCenter (ls ! 0) = Inr palm1" and "getPalmCenter (ls ! 1) = Inr palm2"
    and "isHandPinched (ls ! 0) = Inr p1" and "isHandPinched (ls ! 1) = Inr p2"
  shows "lastTwoHandsDistRef (snd (detectGesture (Some ls) r)) = Some (distance palm1 palm2) \<and>
         (\<not> (p1 \<and> p2) \<longrightarrow> fst (detectGesture (Some ls) r) = Inr None)"
  by (simp add: detectGesture_two_hands [OF assms] zoomGesture_def)

theorem baseline_refreshed_gesture_gated_witness:
  "2 \<le> length [pinched_hand 0.3 0.5, open_hand 0.7 0.5] \<and>
   getPalmCenter ([pinched_hand 0.3 0.5, open_hand 0.7 0.5] ! 0) = Inr \<lparr>x = 0.3, y = 0.5, z = 0\<rparr> \<and>
   getPalmCenter ([pinched_hand 0.3 0.5, open_hand 0.7 0.5] ! 1) = Inr \<lparr>x = 0.7, y = 0.5, z = 0\<rparr> \<and>
   isHandPinched ([pinched_hand 0.3 0.5, open_hand 0.7 0.5] ! 0) = Inr True \<and>
   isHandPinched ([pinched_hand 0.3 0.5, open_hand 0.7 0.5] ! 1) = Inr False \<and>
   fst (detectGesture (Some [pinched_hand 0.3 0.5, open_hand 0.7 0.5])
          (initial_refs\<lparr>lastTwoHandsDistRef := Some 0.1\<rparr>)) = Inr None \<and>
   lastTwoHandsDistRef (snd (detectGesture (Some [pinched_hand 0.3 0.5, open_hand 0.7 0.5])
          (initial_refs\<lparr>lastTwoHandsDistRef := Some 0.1\<rparr>))) = Some 0.4"
proof -
  let ?ls = "[pinched_hand 0.3 0.5, open_hand 0.7 0.5]"
  have len: "2 \<le> length ?ls" by simp
  have palms: "getPalmCenter (?ls ! 0) = Inr \<lparr>x = 0.3, y = 0.5, z = 0\<rparr>"
      "getPalmCenter (?ls ! 1) = Inr \<lparr>x = 0.7, y = 0.5, z = 0\<rparr>"
    by (simp_all add: pinched_hand_readings open_hand_readings)
  have pinched: "isHandPinched (?ls ! 0) = Inr True" "isHandPinched (?ls ! 1) = Inr False"
    by (simp_all add: pinched_hand_readings open_hand_readings)
  have "lastTwoHandsDistRef (snd (detectGesture (Some ?ls)
          (initial_refs\<lparr>lastTwoHandsDistRef := Some 0.1\<rparr>))) = Some 0.4 \<and>
        fst (detectGesture (Some ?ls) (initial_refs\<lparr>lastTwoHandsDistRef := Some 0.1\<rparr>)) = Inr None"
    using baseline_refreshed_gesture_gated [OF len palms pinched,
        of "initial_refs\<lparr>lastTwoHandsDistRef := Some 0.1\<rparr>"]
    by (simp add: distance_same_y)
  then show ?thesis
    using len palms pinched by simp
qed

subsection \<open>Mode switches\<close>

lemma detectTwoHandGesture_refs:
  "lastPositionRef (snd (detectTwoHandGesture ls r)) = lastPositionRef r"
  "lastTwoHandsCenterRef (snd (detectTwoHandGesture ls r)) = lastTwoHandsCenterRef r"
  by (simp_all add: detectTwoHandGesture_def split: sum.splits prod.splits)

lemma detectSingleHandGesture_refs:
  "lastTwoHandsDistRef (snd (detectSingleHandGesture h r)) = lastTwoHandsDistRef r"
  "lastTwoHandsCenterRef (snd (detectSingleHandGesture h r)) = lastTwoHandsCenterRef r"
  by (simp_all add: detectSingleHandGesture_def split: sum.splits prod.splits)

lemma detectGesture_many_refs:
  "2 \<le> length ls \<Longrightarrow> lastPositionRef (snd (detectGesture (Some ls) r)) = None"
  by (auto simp: detectGesture_def detectTwoHandGesture_refs)

lemma detectGesture_single_refs:
  assumes "length ls = 1"
  shows "lastTwoHandsDistRef (snd (detectGesture (Some ls) r)) = None"
    and "lastTwoHandsCenterRef (snd (detectGesture (Some ls) r)) = None"
  using assms by (simp_all add: detectGesture_def detectSingleHandGesture_refs)

lemma refs_onResults:
  assumes "handTrackingEnabled s"
  shows "refs (snd (onResults frame s)) =
           (case frame of
              None \<Rightarrow> (refs s)\<lparr>lastPositionRef := None\<rparr>
            | Some ls \<Rightarrow>
                if length ls = 0 then (refs s)\<lparr>lastPositionRef := None\<rparr>
                else snd (detectGesture (Some ls) (refs s)))"
  using assms by (simp add: onResults_def split: option.splits sum.splits prod.splits)

lemma single_hand_ignores_two_hand_refs:
  "fst (detectGesture (Some [hand]) (r\<lparr>lastTwoHandsDistRef := d, lastTwoHandsCenterRef := c\<rparr>)) =
   fst (detectGesture (Some [hand]) r)"
  by (simp add: detectGesture_def detectSingleHandGesture_def split: sum.splits prod.splits)

lemma two_hands_ignore_single_hand_refs:
  "2 \<le> length ls \<Longrightarrow>
   fst (detectGesture (Some ls) (r\<lparr>lastPositionRef := p\<rparr>)) = fst (detectGesture (Some ls) r)"
  by (auto simp: detectGesture_def detectTwoHandGesture_def split: sum.splits prod.splits)

lemma exclusiveModes_onResults:
  assumes "handTrackingEnabled s"
  shows "exclusiveModes (refs (snd (onResults frame s)))"
  proof (cases frame)
  case None
  then show ?thesis by (simp add: refs_onResults [OF assms] exclusiveModes_def)
next
  case (Some ls)
  consider "length ls = 0" | "length ls = 1" | "2 \<le> length ls" by linarith
  then show ?thesis
  proof cases
    case 1
    then show ?thesis using Some by (simp add: refs_onResults [OF assms] exclusiveModes_def)
  next
    case 2
    then show ?thesis
      using Some detectGesture_single_refs [OF 2, of "refs s"]
      by (simp add: refs_onResults [OF assms] exclusiveModes_def)
  next
    case 3
    then show ?thesis
      using Some detectGesture_many_refs [OF 3, of "refs s"]
      by (simp add: refs_onResults [OF assms] exclusiveModes_def)
  qed
qed

lemma onResults_two_hands:
  assumes "handTrackingEnabled s" and "2 \<le> length ls"
    and "getPalmCenter (ls ! 0) = Inr palm1" and "getPalmCenter (ls ! 1) = Inr palm2"
    and "isHandPinched (ls ! 0) = Inr p1" and "isHandPinched (ls ! 1) = Inr p2"
  shows "onResults (Some ls) s =
           (Inr (),
            s\<lparr>refs := (refs s)\<lparr>lastPositionRef := None, lastPinchDistRef := None,
                         lastTwoHandsDistRef := Some (distance palm1 palm2)\<rparr>,
              currentGesture :=
                zoomGesture (p1 \<and> p2) (distance palm1 palm2) (lastTwoHandsDistRef (refs s))\<rparr>)"
proof -
  have "0 < length ls" using assms(2) by linarith
  then show ?thesis
    using assms(1) by (simp add: onResults_def detectGesture_two_hands [OF assms(2-6)])
qed

lemma onResults_one_hand:
  assumes "handTrackingEnabled s"
    and "getPalmCenter hand = Inr palm" and "isHandFist hand = Inr True"
  shows "onResults (Some [hand]) s =
           (Inr (),
            s\<lparr>refs := (refs s)\<lparr>lastTwoHandsDistRef := None, lastTwoHandsCenterRef := None,
                         lastPositionRef := Some palm\<rparr>,
              currentGesture :=
                Some (Fist palm
                  (case lastPositionRef (refs s) of
                     None \<Rightarrow> None
                   | Some lastPos \<Rightarrow>
                       Some \<lparr>x = x palm - x lastPos, y = y palm - y lastPos,
                             z = z palm - z lastPos\<rparr>))\<rparr>)"
  using assms(1) by (simp add: onResults_def detectGesture_one_hand [OF assms(2,3)])

lemma onResults_no_hands:
  assumes "handTrackingEnabled s" and "frame = None \<or> frame = Some []"
  shows "onResults frame s =
           (Inr (), s\<lparr>refs := (refs s)\<lparr>lastPositionRef := None\<rparr>, currentGesture := None\<rparr>)"
  using assms by (auto simp: onResults_def)

lemma two_hands_read_baseline_only:
  assumes "2 \<le> length ls" and "lastTwoHandsDistRef r' = lastTwoHandsDistRef r"
  shows "fst (detectGesture (Some ls) r') = fst (detectGesture (Some ls) r)"
  using assms
  by (auto simp: detectGesture_def detectTwoHandGesture_def split: sum.splits prod.splits)

lemma refs_onResults_disabled:
  "\<not> handTrackingEnabled s \<Longrightarrow> onResults frame s = (Inr (), s)"
  by (simp add: onResults_def)

lemma refs_setHandTrackingEnabled [simp]: "refs (setHandTrackingEnabled b s) = refs s"
  by (simp add: setHandTrackingEnabled_def)

lemma exclusiveModes_handle:
  "exclusiveModes (refs s) \<Longrightarrow> exclusiveModes (refs (handle ev s))"
proof (cases ev)
  case (Frame f)
  assume inv: "exclusiveModes (refs s)"
  show ?thesis
  proof (cases "handTrackingEnabled s")
    case True
    then show ?thesis using Frame exclusiveModes_onResults by simp
  next
    case False
    then show ?thesis using Frame inv by (simp add: refs_onResults_disabled)
  qed
next
  case (SetEnabled b)
  assume "exclusiveModes (refs s)"
  then show ?thesis using SetEnabled by simp
qed

lemma exclusiveModes_run:
  "exclusiveModes (refs s) \<Longrightarrow> exclusiveModes (refs (run events s))"
  unfolding run_def
  by (induction events arbitrary: s) (simp_all add: exclusiveModes_handle)

text \<open>
  C9: after every frame handled by an enabled tracker, thrown or not, at most one of
  \<open>lastPositionRef\<close> and the pair \<open>lastTwoHandsDistRef\<close>, \<open>lastTwoHandsCenterRef\<close> is
  set, and so it is in every state a session reaches from mounting. A frame of two or
  more hands leaves \<open>lastPositionRef\<close> cleared and its gesture does not depend on that
  ref; a frame of one hand leaves both two-hand refs cleared and its gesture does not
  depend on them.
\<close>

theorem mode_switch_isolation:
  assumes "handTrackingEnabled s"
  shows "exclusiveModes (refs (snd (onResults frame s))) \<and>
         exclusiveModes (refs (run events mounted)) \<and>
         (\<forall>ls. frame = Some ls \<and> 2 \<le> length ls \<longrightarrow>
            lastPositionRef (refs (snd (onResults frame s))) = None \<and>
            (\<forall>p. fst (detectGesture frame ((refs s)\<lparr>lastPositionRef := p\<rparr>)) =
                 fst (detectGesture frame (refs s)))) \<and>
         (\<forall>hand. frame = Some [hand] \<longrightarrow>
            lastTwoHandsDistRef (refs (snd (onResults frame s))) = None \<and>
            lastTwoHandsCenterRef (refs (snd (onResults frame s))) = None \<and>
            (\<forall>d c. fst (detectGesture frame
                          ((refs s)\<lparr>lastTwoHandsDistRef := d, lastTwoHandsCenterRef := c\<rparr>)) =
                   fst (detectGesture frame (refs s))))"
proof -
  have excl: "exclusiveModes (refs (snd (onResults frame s)))"
    using assms by (rule exclusiveModes_onResults)
  have two: "\<forall>ls. frame = Some ls \<and> 2 \<le> length ls \<longrightarrow>
            lastPositionRef (refs (snd (onResults frame s))) = None \<and>
            (\<forall>p. fst (detectGesture frame ((refs s)\<lparr>lastPositionRef := p\<rparr>)) =
                 fst (detectGesture frame (refs s)))"
    using detectGesture_many_refs two_hands_ignore_single_hand_refs
    by (auto simp: refs_onResults [OF assms])
  have one: "\<forall>hand. frame = Some [hand] \<longrightarrow>
            lastTwoHandsDistRef (refs (snd (onResults frame s))) = None \<and>
            lastTwoHandsCenterRef (refs (snd (onResults frame s))) = None \<and>
            (\<forall>d c. fst (detectGesture frame
                          ((refs s)\<lparr>lastTwoHandsDistRef := d, lastTwoHandsCenterRef := c\<rparr>)) =
                   fst (detectGesture frame (refs s)))"
    using single_hand_ignores_two_hand_refs
    by (auto simp: refs_onResults [OF assms] detectGesture_single_refs)
  have session: "exclusiveModes (refs (run events mounted))"
    by (rule exclusiveModes_run) (simp add: mounted_def initial_refs_def exclusiveModes_def)
  show ?thesis using excl session two one by blast
qed

theorem mode_switch_isolation_witness:
  "handTrackingEnabled
     (tracking (initial_refs\<lparr>lastPositionRef := Some \<lparr>x = 0.5, y = 0.5, z = 0\<rparr>\<rparr>)) \<and>
   exclusiveModes (refs (snd (onResults (Some [pinched_hand 0.3 0.5, pinched_hand 0.7 0.5])
     (tracking (initial_refs\<lparr>lastPositionRef := Some \<lparr>x = 0.5, y = 0.5, z = 0\<rparr>\<rparr>))))) \<and>
   lastPositionRef (refs (snd (onResults (Some [pinched_hand 0.3 0.5, pinched_hand 0.7 0.5])
     (tracking (initial_refs\<lparr>lastPositionRef := Some \<lparr>x = 0.5, y = 0.5, z = 0\<rparr>\<rparr>))))) = None \<and>
   handTrackingEnabled (tracking (initial_refs\<lparr>lastTwoHandsDistRef := Some 0.4\<rparr>)) \<and>
   lastTwoHandsDistRef (refs (snd (onResults (Some [fist_hand 0.6 0.5])
     (tracking (initial_refs\<lparr>lastTwoHandsDistRef := Some 0.4\<rparr>))))) = None"
proof -
  have on: "handTrackingEnabled (tracking r)" for r
    by (simp add: tracking_def)
  show ?thesis
    using on
      mode_switch_isolation [OF on [of "initial_refs\<lparr>lastPositionRef :=
          Some \<lparr>x = 0.5, y = 0.5, z = 0\<rparr>\<rparr>"],
        where frame = "Some [pinched_hand 0.3 0.5, pinched_hand 0.7 0.5]"]
      mode_switch_isolation [OF on [of "initial_refs\<lparr>lastTwoHandsDistRef := Some 0.4\<rparr>"],
        where frame = "Some [fist_hand 0.6 0.5]"]
    by simp
qed

subsection \<open>Frames without hands\<close>

text \<open>
  C2, as the spec states it: a frame with zero hands clears the two-hand fields as well,
  so that a later two-hand frame never computes a zoom delta from a baseline recorded
  before the gap. In the session below two pinched hands 0.2 apart are followed by a
  frame without hands and then by two pinched hands 0.4 apart: the baseline 0.2 survives
  the empty frame, and the last frame emits \<open>TwohandSpread\<close> of full strength from it.
\<close>

theorem zero_hands_gap_counterexample:
  "lastTwoHandsDistRef (refs (run
      [SetEnabled True, Frame (Some [pinched_hand 0.4 0.5, pinched_hand 0.6 0.5]),
       Frame (Some [])]
      mounted)) = Some 0.2 \<and>
   currentGesture (run
      [SetEnabled True, Frame (Some [pinched_hand 0.4 0.5, pinched_hand 0.6 0.5]),
       Frame (Some []), Frame (Some [pinched_hand 0.3 0.5, pinched_hand 0.7 0.5])]
      mounted) = Some (TwohandSpread 1)"
proof -
  have two: "snd (onResults (Some [pinched_hand a b, pinched_hand c b]) s) =
      s\<lparr>refs := (refs s)\<lparr>lastPositionRef := None, lastPinchDistRef := None,
                         lastTwoHandsDistRef := Some \<bar>a - c\<bar>\<rparr>,
        currentGesture := zoomGesture True \<bar>a - c\<bar> (lastTwoHandsDistRef (refs s))\<rparr>"
    if "handTrackingEnabled s" for a b c s
    using onResults_two_hands [OF that, of "[pinched_hand a b, pinched_hand c b]"
        "\<lparr>x = a, y = b, z = 0\<rparr>" "\<lparr>x = c, y = b, z = 0\<rparr>" True True]
    by (simp add: pinched_hand_readings distance_same_y)
  have none: "snd (onResults (Some []) s) =
      s\<lparr>refs := (refs s)\<lparr>lastPositionRef := None\<rparr>, currentGesture := None\<rparr>"
    if "handTrackingEnabled s" for s
    using that by (simp add: onResults_def)
  show ?thesis
    by (simp add: run_def two none setHandTrackingEnabled_def mounted_def initial_refs_def
        zoomGesture_def)
qed

text \<open>
  C2, amended: on a frame with zero hands (an empty or a missing list) the detector emits
  \<open>None\<close> and sets \<open>lastPositionRef\<close> to \<open>None\<close>; the two-hand refs keep their values, so
  a following frame of two or more hands yields the gesture it would have yielded without
  the gap.
\<close>

theorem zero_hands_keeps_baseline:
  assumes "handTrackingEnabled s" and "frame = None \<or> frame = Some []"
  shows "currentGesture (snd (onResults frame s)) = None \<and>
         lastPositionRef (refs (snd (onResults frame s))) = None \<and>
         lastTwoHandsDistRef (refs (snd (onResults frame s))) = lastTwoHandsDistRef (refs s) \<and>
         lastTwoHandsCenterRef (refs (snd (onResults frame s))) =
           lastTwoHandsCenterRef (refs s) \<and>
         (\<forall>ls. 2 \<le> length ls \<longrightarrow>
            fst (detectGesture (Some ls) (refs (snd (onResults frame s)))) =
            fst (detectGesture (Some ls) (refs s)))"
proof -
  have "fst (detectGesture (Some ls) ((refs s)\<lparr>lastPositionRef := None\<rparr>)) =
        fst (detectGesture (Some ls) (refs s))" if "2 \<le> length ls" for ls
    using that by (rule two_hands_read_baseline_only) simp
  then show ?thesis
    by (simp add: onResults_no_hands [OF assms])
qed

theorem zero_hands_keeps_baseline_witness:
  "handTrackingEnabled (tracking (initial_refs\<lparr>lastPositionRef := Some \<lparr>x = 0.5, y = 0.5, z = 0\<rparr>\<rparr>)) \<and>
   currentGesture (snd (onResults (Some [])
     (tracking (initial_refs\<lparr>lastPositionRef := Some \<lparr>x = 0.5, y = 0.5, z = 0\<rparr>\<rparr>)))) = None \<and>
   lastPositionRef (refs (snd (onResults (Some [])
     (tracking (initial_refs\<lparr>lastPositionRef := Some \<lparr>x = 0.5, y = 0.5, z = 0\<rparr>\<rparr>))))) = None"
  using zero_hands_keeps_baseline [of
      "tracking (initial_refs\<lparr>lastPositionRef := Some \<lparr>x = 0.5, y = 0.5, z = 0\<rparr>\<rparr>)" "Some []"]
  by (simp add: tracking_def)

subsection \<open>Disabling and re-enabling\<close>

text \<open>
  C1: disabling clears the current gesture but none of the refs. In the session below a
  fist is seen at \<open>x = 0.2\<close>, tracking is switched off and on again, and a fist is seen
  at \<open>x = 0.6\<close>: the first fist frame after re-enabling carries the delta 0.4 against the
  palm recorded before the tracker was disabled.
\<close>

theorem disable_keeps_last_palm:
  "currentGesture (run
      [SetEnabled True, Frame (Some [fist_hand 0.2 0.5]), SetEnabled False]
      mounted) = None \<and>
   lastPositionRef (refs (run
      [SetEnabled True, Frame (Some [fist_hand 0.2 0.5]), SetEnabled False, SetEnabled True]
      mounted)) = Some \<lparr>x = 0.2, y = 0.5, z = 0\<rparr> \<and>
   currentGesture (run
      [SetEnabled True, Frame (Some [fist_hand 0.2 0.5]), SetEnabled False, SetEnabled True,
       Frame (Some [fist_hand 0.6 0.5])]
      mounted) =
     Some (Fist \<lparr>x = 0.6, y = 0.5, z = 0\<rparr> (Some \<lparr>x = 0.4, y = 0, z = 0\<rparr>))"
proof -
  have one: "snd (onResults (Some [fist_hand a b]) s) =
      s\<lparr>refs := (refs s)\<lparr>lastTwoHandsDistRef := None, lastTwoHandsCenterRef := None,
                         lastPositionRef := Some \<lparr>x = a, y = b, z = 0\<rparr>\<rparr>,
        currentGesture :=
          Some (Fist \<lparr>x = a, y = b, z = 0\<rparr>
            (case lastPositionRef (refs s) of
               None \<Rightarrow> None
             | Some lastPos \<Rightarrow> Some \<lparr>x = a - x lastPos, y = b - y lastPos, z = 0 - z lastPos\<rparr>))\<rparr>"
    if "handTrackingEnabled s" for a b s
    using onResults_one_hand [OF that fist_hand_readings, of a b]
    by (cases "lastPositionRef (refs s)") simp_all
  show ?thesis
    by (simp add: run_def one setHandTrackingEnabled_def mounted_def initial_refs_def)
qed

subsection \<open>Camera mapper\<close>

lemma vec_length_multiplyScalar: "vec_length (multiplyScalar v s) = \<bar>s\<bar> * vec_length v"
proof -
  have "(x v * s)\<^sup>2 + (y v * s)\<^sup>2 + (z v * s)\<^sup>2 = s\<^sup>2 * ((x v)\<^sup>2 + (y v)\<^sup>2 + (z v)\<^sup>2)"
    by (simp add: algebra_simps)
  then show ?thesis
    by (simp add: vec_length_def multiplyScalar_def real_sqrt_mult)
qed

lemma vec_length_nonneg: "0 \<le> vec_length v"
  by (simp add: vec_length_def)

lemma vec_length_rescale:
  assumes "vec_length v \<noteq> 0" and "0 \<le> d"
  shows "vec_length (multiplyScalar (normalize v) d) = d"
  using assms vec_length_nonneg [of v]
  by (simp add: vec_length_multiplyScalar normalize_def)

lemma vec_length_zero: "vec_length v = 0 \<Longrightarrow> x v = 0 \<and> y v = 0 \<and> z v = 0"
proof -
  assume "vec_length v = 0"
  then have "(x v)\<^sup>2 + (y v)\<^sup>2 + (z v)\<^sup>2 = 0"
    by (simp add: vec_length_def)
  then show ?thesis
    by (smt (verit) power2_eq_iff_nonneg zero_le_power2 zero_power2 sum_power2_eq_zero_iff)
qed

lemma multiplyScalar_twice: "multiplyScalar (multiplyScalar v a) b = multiplyScalar v (a * b)"
  by (simp add: multiplyScalar_def algebra_simps)

lemma normalize_scaled:
  assumes "0 < k"
  shows "normalize (multiplyScalar v k) = normalize v"
proof -
  have len: "vec_length (multiplyScalar v k) = k * vec_length v"
    using assms by (simp add: vec_length_multiplyScalar)
  show ?thesis
  proof (cases "vec_length v = 0")
    case True
    then show ?thesis
      using vec_length_zero [OF True]
      by (simp add: normalize_def len multiplyScalar_def)
  next
    case False
    then show ?thesis
      using assms by (simp add: normalize_def len multiplyScalar_twice)
  qed
qed

lemma azimuthOf_scaled:
  assumes "0 < k"
  shows "azimuthOf (multiplyScalar v k) = azimuthOf v"
proof -
  have eq: "Complex (z v * k) (x v * k) = of_real k * Complex (z v) (x v)"
    by (simp add: complex_eq_iff)
  have "sgn (complex_of_real k) = 1"
    using assms by (simp add: sgn_eq)
  then have "sgn (of_real k * Complex (z v) (x v)) = sgn (Complex (z v) (x v))"
    by (simp only: sgn_mult mult_1)
  moreover have "of_real k * Complex (z v) (x v) = 0 \<longleftrightarrow> Complex (z v) (x v) = 0"
    using assms by simp
  ultimately show ?thesis
    by (simp add: azimuthOf_def multiplyScalar_def eq Arg_def del: of_real_mult)
qed

lemma rescale_is_positive_multiple:
  assumes "0 < d"
  shows "\<exists>k>0. multiplyScalar (normalize v) d = multiplyScalar v k"
proof (cases "vec_length v = 0")
  case True
  then show ?thesis
    using assms by (intro exI [of _ d]) (simp add: normalize_def multiplyScalar_twice)
next
  case False
  then have "0 < vec_length v" using vec_length_nonneg [of v] by simp
  then show ?thesis
    using assms False
    by (intro exI [of _ "1 / vec_length v * d"]) (simp add: normalize_def multiplyScalar_twice)
qed

lemma inRange_clamp: "inRange (max 3 (min 20 d))"
  by (simp add: inRange_def)

lemma useFrame_gesture:
  assumes "controlsRef sc = Some controls"
  shows "useFrame update True (Some g) sc =
           runUpdate update (fst (applyGesture g (position sc) controls))
             (snd (applyGesture g (position sc) controls))"
  using assms by (simp add: useFrame_def split: prod.splits)

lemma useFrame_no_gesture:
  assumes "controlsRef sc = Some controls"
  shows "useFrame update enabled None sc = runUpdate update (position sc) controls"
  using assms by (simp add: useFrame_def)

lemma runUpdate_parts:
  "position (runUpdate update pos controls) = fst (update pos controls)"
  "controlsRef (runUpdate update pos controls) = Some (snd (update pos controls))"
  by (simp_all add: runUpdate_def split: prod.splits)

lemma applyGesture_zoom_length:
  assumes "vec_length pos \<noteq> 0"
  shows "vec_length (fst (applyGesture (TwohandPinch strength) pos controls)) =
           max 3 (min 20 (vec_length pos + strength * 0.5))"
    and "vec_length (fst (applyGesture (TwohandSpread strength) pos controls)) =
           max 3 (min 20 (vec_length pos - strength * 0.5))"
  using assms by (simp_all add: applyGesture_def Let_def vec_length_rescale)

lemma zoom_tick_in_range:
  assumes upd: "\<And>pos controls. inRange (vec_length pos) \<Longrightarrow>
                  inRange (vec_length (fst (update pos controls)))"
    and "controlsRef sc \<noteq> None" and "vec_length (position sc) \<noteq> 0" and "isZoom g"
  shows "inRange (vec_length (position (useFrame update True g sc))) \<and>
         controlsRef (useFrame update True g sc) \<noteq> None"
proof -
  obtain controls where c: "controlsRef sc = Some controls"
    using assms(2) by auto
  from \<open>isZoom g\<close> consider
      strength where "g = Some (TwohandPinch strength)"
    | strength where "g = Some (TwohandSpread strength)"
    by (auto simp: isZoom_def split: option.splits gesture.splits)
  then show ?thesis
  proof cases
    case 1
    have "inRange (vec_length (fst (applyGesture (TwohandPinch strength) (position sc) controls)))"
      by (simp add: applyGesture_zoom_length [OF assms(3)] inRange_clamp)
    then show ?thesis
      using 1 upd by (simp add: useFrame_gesture [OF c] runUpdate_parts)
  next
    case 2
    have "inRange (vec_length (fst (applyGesture (TwohandSpread strength) (position sc) controls)))"
      by (simp add: applyGesture_zoom_length [OF assms(3)] inRange_clamp)
    then show ?thesis
      using 2 upd by (simp add: useFrame_gesture [OF c] runUpdate_parts)
  qed
qed

lemma zoom_ticks_in_range:
  assumes upd: "\<And>pos controls. inRange (vec_length pos) \<Longrightarrow>
                  inRange (vec_length (fst (update pos controls)))"
    and "gestures \<noteq> []" and "list_all isZoom gestures"
    and "controlsRef sc \<noteq> None" and "vec_length (position sc) \<noteq> 0"
  shows "inRange (vec_length (position (renderTicks update True gestures sc)))"
  using assms(2-)
proof (induction gestures arbitrary: sc)
  case Nil
  then show ?case by simp
next
  case (Cons g gestures)
  have tick: "inRange (vec_length (position (useFrame update True g sc)))"
      "controlsRef (useFrame update True g sc) \<noteq> None"
    using zoom_tick_in_range [where update = update and sc = sc and g = g, OF upd Cons.prems(3,4)]
      Cons.prems(2)
    by simp_all
  show ?case
  proof (cases "gestures = []")
    case True
    then show ?thesis using tick by simp
  next
    case False
    have "vec_length (position (useFrame update True g sc)) \<noteq> 0"
      using tick(1) by (auto simp: inRange_def)
    then show ?thesis
      using Cons.IH [OF False _ tick(2)] Cons.prems(2) by simp
  qed
qed

text \<open>
  C5: take a camera away from the origin, a mounted controller, and a damping pass that
  keeps a distance in \<open>[3, 20]\<close> inside \<open>[3, 20]\<close>. Then after each tick of every run of
  \<open>TwohandPinch\<close> and \<open>TwohandSpread\<close> gestures the camera distance lies in \<open>[3, 20]\<close>;
  the pinch branch sets the distance to \<open>max 3 (min 20 (distance + strength * 0.5))\<close> and
  the spread branch to \<open>max 3 (min 20 (distance - strength * 0.5))\<close>, both in \<open>[3, 20]\<close>.
\<close>

theorem zoom_distance_clamped:
  assumes "\<And>pos controls. inRange (vec_length pos) \<Longrightarrow>
             inRange (vec_length (fst (update pos controls)))"
    and "controlsRef sc = Some controls" and "vec_length (position sc) \<noteq> 0"
    and "list_all isZoom gestures"
  shows "(\<forall>n. 0 < n \<and> n \<le> length gestures \<longrightarrow>
            inRange (vec_length (position (renderTicks update True (take n gestures) sc)))) \<and>
         vec_length (fst (applyGesture (TwohandPinch strength) (position sc) controls)) =
           max 3 (min 20 (vec_length (position sc) + strength * 0.5)) \<and>
         vec_length (fst (applyGesture (TwohandSpread strength) (position sc) controls)) =
           max 3 (min 20 (vec_length (position sc) - strength * 0.5)) \<and>
         inRange (vec_length (fst (applyGesture (TwohandPinch strength) (position sc) controls))) \<and>
         inRange (vec_length (fst (applyGesture (TwohandSpread strength) (position sc) controls)))"
proof -
  have "inRange (vec_length (position (renderTicks update True (take n gestures) sc)))"
    if "0 < n" and "n \<le> length gestures" for n
  proof (rule zoom_ticks_in_range)
    show "take n gestures \<noteq> []" using that by auto
    show "list_all isZoom (take n gestures)"
      using assms(4) by (auto simp: list_all_iff dest: in_set_takeD)
    show "controlsRef sc \<noteq> None" using assms(2) by simp
    show "vec_length (position sc) \<noteq> 0" by (rule assms(3))
  qed (rule assms(1))
  then show ?thesis
    by (simp add: applyGesture_zoom_length [OF assms(3)] inRange_clamp)
qed

theorem zoom_distance_clamped_witness:
  "controlsRef initialCamera = Some \<lparr>azimuthalAngle = pi / 4\<rparr> \<and>
   vec_length (position initialCamera) \<noteq> 0 \<and>
   list_all isZoom [Some (TwohandPinch 1), Some (TwohandSpread 0.5)] \<and>
   inRange (vec_length (position
     (renderTicks noDamping True [Some (TwohandPinch 1), Some (TwohandSpread 0.5)] initialCamera)))"
proof -
  have upd: "inRange (vec_length pos) \<Longrightarrow> inRange (vec_length (fst (noDamping pos controls)))"
    for pos controls
    by (simp add: noDamping_def)
  have c: "controlsRef initialCamera = Some \<lparr>azimuthalAngle = pi / 4\<rparr>"
    by (simp add: initialCamera_def)
  have p: "vec_length (position initialCamera) \<noteq> 0"
    by (simp add: initialCamera_def vec_length_def)
  have g: "list_all isZoom [Some (TwohandPinch 1), Some (TwohandSpread 0.5)]"
    by (simp add: isZoom_def)
  have "inRange (vec_length (position
     (renderTicks noDamping True [Some (TwohandPinch 1), Some (TwohandSpread 0.5)] initialCamera)))"
    using conjunct1 [OF zoom_distance_clamped [where update = noDamping, OF upd c p g],
        THEN spec, of 2]
    by simp
  then show ?thesis
    using c p g by simp
qed

text \<open>
  C8: with the controller mounted, a tick on a \<open>Fist\<close> gesture that carries a delta sets
  the azimuth to \<open>azimuth - x delta * 15\<close> and leaves the camera position alone; a tick on
  a \<open>Fist\<close> without delta, and a tick on no gesture, hand camera and controller unchanged
  to the damping pass, which still runs.
\<close>

theorem fist_rotates_azimuth:
  assumes "controlsRef sc = Some controls"
  shows "useFrame update True (Some (Fist palm (Some delta))) sc =
           runUpdate update (position sc)
             (controls\<lparr>azimuthalAngle := getAzimuthalAngle controls - x delta * 15\<rparr>) \<and>
         useFrame update True (Some (Fist palm None)) sc =
           runUpdate update (position sc) controls \<and>
         useFrame update enabled None sc = runUpdate update (position sc) controls"
  using assms
  by (simp add: useFrame_def applyGesture_def setAzimuthalAngle_def)

theorem fist_rotates_azimuth_witness:
  "controlsRef initialCamera = Some \<lparr>azimuthalAngle = pi / 4\<rparr> \<and>
   useFrame noDamping True
     (Some (Fist \<lparr>x = 0.6, y = 0.5, z = 0\<rparr> (Some \<lparr>x = 0.1, y = 0, z = 0\<rparr>))) initialCamera =
     \<lparr>position = \<lparr>x = 8, y = 6, z = 8\<rparr>, controlsRef = Some \<lparr>azimuthalAngle = pi / 4 - 1.5\<rparr>\<rparr> \<and>
   useFrame noDamping True (Some (Fist \<lparr>x = 0.6, y = 0.5, z = 0\<rparr> None)) initialCamera =
     initialCamera \<and>
   useFrame noDamping True None initialCamera = initialCamera"
proof -
  have c: "controlsRef initialCamera = Some \<lparr>azimuthalAngle = pi / 4\<rparr>"
    by (simp add: initialCamera_def)
  show ?thesis
    using fist_rotates_azimuth [OF c, where update = noDamping
        and palm = "\<lparr>x = 0.6, y = 0.5, z = 0\<rparr>" and delta = "\<lparr>x = 0.1, y = 0, z = 0\<rparr>"
        and enabled = True]
    by (simp add: c runUpdate_def noDamping_def getAzimuthalAngle_def initialCamera_def)
qed

text \<open>
  C10: a tick on \<open>TwohandPinch\<close> or \<open>TwohandSpread\<close> hands the damping pass the old camera
  position multiplied by a positive factor, with the controller untouched: the direction
  of the position (its normalisation) and its azimuth are those of the old position.
\<close>

theorem zoom_keeps_direction:
  assumes "controlsRef sc = Some controls"
    and "g = TwohandPinch strength \<or> g = TwohandSpread strength"
  shows "\<exists>k>0. useFrame update True (Some g) sc =
                  runUpdate update (multiplyScalar (position sc) k) controls \<and>
               normalize (multiplyScalar (position sc) k) = normalize (position sc) \<and>
               azimuthOf (multiplyScalar (position sc) k) = azimuthOf (position sc)"
proof -
  define d where "d = (case g of TwohandPinch s \<Rightarrow> max 3 (min 20 (vec_length (position sc) + s * 0.5))
                        | TwohandSpread s \<Rightarrow> max 3 (min 20 (vec_length (position sc) - s * 0.5))
                        | _ \<Rightarrow> 3)"
  have "0 < d"
    using assms(2) by (auto simp: d_def)
  then obtain k where k: "0 < k" "multiplyScalar (normalize (position sc)) d = multiplyScalar (position sc) k"
    using rescale_is_positive_multiple by blast
  have "applyGesture g (position sc) controls = (multiplyScalar (normalize (position sc)) d, controls)"
    using assms(2) by (auto simp: applyGesture_def d_def Let_def)
  then have "useFrame update True (Some g) sc =
               runUpdate update (multiplyScalar (position sc) k) controls"
    by (simp add: useFrame_gesture [OF assms(1)] k(2))
  then show ?thesis
    using k(1) normalize_scaled azimuthOf_scaled by blast
qed

theorem zoom_keeps_direction_witness:
  "controlsRef initialCamera = Some \<lparr>azimuthalAngle = pi / 4\<rparr> \<and>
   (\<exists>k>0. useFrame noDamping True (Some (TwohandPinch 1)) initialCamera =
            runUpdate noDamping (multiplyScalar (position initialCamera) k)
              \<lparr>azimuthalAngle = pi / 4\<rparr> \<and>
          normalize (multiplyScalar (position initialCamera) k) = normalize (position initialCamera) \<and>
          azimuthOf (multiplyScalar (position initialCamera) k) = azimuthOf (position initialCamera))"
proof -
  have c: "controlsRef initialCamera = Some \<lparr>azimuthalAngle = pi / 4\<rparr>"
    by (simp add: initialCamera_def)
  show ?thesis
    using c zoom_keeps_direction [OF c, where g = "TwohandPinch 1" and strength = 1
        and update = noDamping]
    by simp
qed


end
